theory Spec2Isabelle
  imports Main "HOL-Library.AList" "HOL-Library.Char_ord" "HOL-Library.List_Lexorder"
begin

section \<open>JavaScript values and string operations used by the converter\<close>

text \<open>
  The converter is JavaScript. Every field read from a CSV file is a string, a missing
  property reads as \<open>undefined\<close>, and an optional protobuf field that is not set decodes
  to \<open>null\<close>. Both are modelled by \<open>None\<close>; where the source tells them apart (the
  comparisons \<open>===\<close> and \<open>==\<close>) the model says so.

  Numbers are modelled by \<open>int option\<close>, \<open>None\<close> standing for \<open>NaN\<close>. The conversions
  below cover the decimal integer literals (with ASCII white space around them), which is
  what GTFS fields hold; fractions, exponents and \<open>Infinity\<close> are outside the fragment,
  and no theorem below draws a conclusion from the value the model gives them.
\<close>

datatype error =
    TypeError | RangeError | TemplateError
  | ExecError | GrepError | NoSuchFile | ParseError
  | UnrecognizedStore | InvalidPath | RequestError | UnzipError

definition is_digit :: "char \<Rightarrow> bool" where
  "is_digit c = (c \<in> set ''0123456789'')"

definition digit_val :: "char \<Rightarrow> nat" where
  "digit_val c = of_char c - 48"

definition digits_to_nat :: "string \<Rightarrow> nat" where
  "digits_to_nat s = foldl (\<lambda>a c. 10 * a + digit_val c) 0 s"

definition is_hex :: "char \<Rightarrow> bool" where
  "is_hex c = (c \<in> set ''0123456789abcdefABCDEF'')"

definition hex_val :: "char \<Rightarrow> nat" where
  "hex_val c = (if is_digit c then of_char c - 48
                else if c \<in> set ''abcdef'' then of_char c - 87 else of_char c - 55)"

definition hex_to_nat :: "string \<Rightarrow> nat" where
  "hex_to_nat s = foldl (\<lambda>a c. 16 * a + hex_val c) 0 s"

definition is_ws :: "char \<Rightarrow> bool" where
  "is_ws c = (c \<in> set [CHR 0x09, CHR 0x0A, CHR 0x0B, CHR 0x0C, CHR 0x0D, CHR 0x20])"

text \<open>\<open>String.prototype.trim\<close>, on ASCII white space.\<close>

definition trim :: "string \<Rightarrow> string" where
  "trim s = rev (dropWhile is_ws (rev (dropWhile is_ws s)))"

definition all_digits :: "string \<Rightarrow> bool" where
  "all_digits s = (s \<noteq> [] \<and> list_all is_digit s)"

text \<open>
  \<open>ToNumber\<close> on a string, as \<open>==\<close> against a number and the \<open>Date\<close> constructor
  apply it: the blank string is 0, a signed run of digits is its value, anything else of
  the fragment is \<open>NaN\<close>.
\<close>

definition to_number :: "string \<Rightarrow> int option" where
  "to_number s =
     (let t = trim s in
      if t = [] then Some 0
      else if all_digits t then Some (int (digits_to_nat t))
      else if hd t = CHR ''+'' \<and> all_digits (tl t) then Some (int (digits_to_nat (tl t)))
      else if hd t = CHR ''-'' \<and> all_digits (tl t) then Some (- int (digits_to_nat (tl t)))
      else None)"

text \<open>
  \<open>parseInt\<close> with no radix: leading white space, a sign, then the longest run of digits
  (hexadecimal after \<open>0x\<close>); \<open>NaN\<close> when the run is empty.
\<close>

definition parseInt :: "string \<Rightarrow> int option" where
  "parseInt s =
     (let t = dropWhile is_ws s;
          neg = (t \<noteq> [] \<and> hd t = CHR ''-'');
          r = (if t \<noteq> [] \<and> (hd t = CHR ''-'' \<or> hd t = CHR ''+'') then tl t else t);
          sgn = (if neg then - 1 else 1)
      in if take 2 r = ''0x'' \<or> take 2 r = ''0X'' then
           (let hs = takeWhile is_hex (drop 2 r)
            in if hs = [] then None else Some (sgn * int (hex_to_nat hs)))
         else
           (let ds = takeWhile is_digit r
            in if ds = [] then None else Some (sgn * int (digits_to_nat ds))))"

fun nat_to_digits :: "nat \<Rightarrow> string" where
  "nat_to_digits n =
     (if n < 10 then [''0123456789'' ! n]
      else nat_to_digits (n div 10) @ [''0123456789'' ! (n mod 10)])"

text \<open>The string of an integer-valued number, as \<open>+\<close> appends it to a string.\<close>

definition number_to_string :: "int \<Rightarrow> string" where
  "number_to_string n =
     (if n < 0 then CHR ''-'' # nat_to_digits (nat (- n)) else nat_to_digits (nat n))"

text \<open>\<open>String.prototype.split\<close> on a one-character separator.\<close>

fun split_on :: "char \<Rightarrow> string \<Rightarrow> string list" where
  "split_on c [] = [[]]"
| "split_on c (x # xs) =
     (if x = c then [] # split_on c xs
      else (case split_on c xs of [] \<Rightarrow> [[x]] | p # ps \<Rightarrow> (x # p) # ps))"

text \<open>Reading an array past its end gives \<open>undefined\<close>.\<close>

definition nth_opt :: "'a list \<Rightarrow> nat \<Rightarrow> 'a option" where
  "nth_opt xs i = (if i < length xs then Some (xs ! i) else None)"

text \<open>
  \<open>a === b\<close> and \<open>a == b\<close> between a CSV field (a string or \<open>undefined\<close>) and a decoded
  protobuf string (a string or \<open>null\<close>): \<open>undefined === null\<close> is false and
  \<open>undefined == null\<close> is true.
\<close>

definition strict_eq :: "string option \<Rightarrow> string option \<Rightarrow> bool" where
  "strict_eq a b = (case (a, b) of (Some x, Some y) \<Rightarrow> x = y | _ \<Rightarrow> False)"

definition loose_eq :: "string option \<Rightarrow> string option \<Rightarrow> bool" where
  "loose_eq a b = (case (a, b) of (Some x, Some y) \<Rightarrow> x = y | (None, None) \<Rightarrow> True | _ \<Rightarrow> False)"

text \<open>\<open>value == n\<close> for a CSV field and a number \<open>n\<close>: the string is converted to a number.\<close>

definition loose_eq_num :: "string option \<Rightarrow> int \<Rightarrow> bool" where
  "loose_eq_num v n = (case v of None \<Rightarrow> False | Some s \<Rightarrow> to_number s = Some n)"

section \<open>Records of the static schedule\<close>

text \<open>
  A parsed CSV row is an object keyed by the header names. A key of the indexes is a
  string, or \<open>null\<close>/\<open>undefined\<close> (\<open>None\<close>) where the source uses such a value as key.
\<close>

type_synonym row = "(string \<times> string) list"

definition field_of :: "row \<Rightarrow> string \<Rightarrow> string option" where
  "field_of r k = map_of r k"

type_synonym 'v js_map = "string option \<Rightarrow> 'v option"

record indexes =
  routes :: "row js_map"
  trips :: "row js_map"
  stops :: "row js_map"
  stop_times :: "row list js_map"
  tripsByRoute :: "string option list js_map option"
  firstStops :: "row js_map option"
  calendar :: "row js_map option"
  calendarDates :: "(string \<times> string option) list js_map option"

section \<open>The Delay Merge Engine: \<open>Gtfsrt2LC.parse\<close>\<close>

subsection \<open>The decoded real-time feed\<close>

record StopTimeEvent =
  delay :: "int option"

record StopTimeUpdate =
  stop_id :: "string option"
  departure :: "StopTimeEvent option"
  arrival :: "StopTimeEvent option"

record TripDescriptor =
  trip_id :: "string option"
  start_date :: "string option"
  start_time :: "string option"
  schedule_relationship :: "int option"

record TripUpdate =
  trip :: TripDescriptor
  stop_time_update :: "StopTimeUpdate list"

record FeedEntity =
  is_deleted :: bool
  trip_update :: "TripUpdate option"

subsection \<open>Connections\<close>

text \<open>
  An instant is the number of seconds after local midnight of the service day named by
  the update's \<open>start_date\<close>; \<open>None\<close> is an invalid \<open>Date\<close>. Daylight-saving shifts and
  the range limit of \<open>Date\<close> are not modelled.

  The five identifiers of a connection are filled by the \<open>uri-templates\<close> and
  \<open>date-fns\<close> libraries from the configured templates and the route and trip indexes
  (lines 156 to 166, \<open>resolveURI\<close>, \<open>resolveValue\<close>). They are a parameter of the
  model: a resolver, which returns \<open>None\<close> where any of these lines throws.
\<close>

record raw_connection =
  rc_departureStop :: "string option"
  rc_departureTime :: "int option"
  rc_arrivalStop :: "string option"
  rc_arrivalTime :: "int option"

record uri_set =
  departureStopURI :: string
  arrivalStopURI :: string
  routeURI :: string
  tripURI :: string
  connectionURI :: string

type_synonym resolver = "string option \<Rightarrow> int option \<Rightarrow> raw_connection \<Rightarrow> uri_set option"

record Connection =
  lc_id :: string
  lc_type :: string
  lc_departureStop :: string
  lc_arrivalStop :: string
  lc_departureTime :: int
  lc_arrivalTime :: int
  lc_departureDelay :: "int option"
  lc_arrivalDelay :: "int option"
  lc_direction :: "string option"
  lc_trip :: string
  lc_route :: string
  lc_pickupType :: "string option"
  lc_dropOffType :: "string option"

datatype log = TripNotFound "string option" | HopError error "string option" | Rejected error

datatype event = Push Connection | ConsoleError log

subsection \<open>Helpers of the class\<close>

definition getConnectionType :: "FeedEntity \<Rightarrow> TripUpdate \<Rightarrow> string" where
  "getConnectionType entity tu =
     (if is_deleted entity \<or> schedule_relationship (trip tu) = Some 3
      then ''CanceledConnection'' else ''Connection'')"

text \<open>
  \<open>parseGTFSDuration\<close>: hours and minutes are \<open>parseInt\<close> of the first two parts
  (\<open>NaN\<close> or \<open>undefined\<close> are \<open>None\<close>), a falsy seconds part becomes 0.
\<close>

definition parseGTFSDuration :: "string \<Rightarrow> int option \<times> int option \<times> int" where
  "parseGTFSDuration durationString =
     (let parts = map parseInt (split_on CHR '':'' durationString);
          hours = (case nth_opt parts 0 of Some h \<Rightarrow> h | None \<Rightarrow> None);
          minutes = (case nth_opt parts 1 of Some m \<Rightarrow> m | None \<Rightarrow> None);
          seconds = (case nth_opt parts 2 of Some (Some s) \<Rightarrow> s | _ \<Rightarrow> 0)
      in (hours, minutes, seconds))"

text \<open>\<open>addDuration\<close>: an invalid date or a \<open>NaN\<close> amount gives an invalid date.\<close>

definition addDuration :: "int option \<Rightarrow> int option \<times> int option \<times> int \<Rightarrow> int option" where
  "addDuration date duration =
     (case (date, duration) of
        (Some d, Some h, Some m, s) \<Rightarrow> Some (d + 3600 * h + 60 * m + s)
      | _ \<Rightarrow> None)"

text \<open>
  The service day \<open>new Date(year, month - 1, day)\<close> of a \<open>start_date\<close>: midnight of
  that day is the origin of the instants, and the date is invalid when a part is not a
  number.
\<close>

definition serviceDay :: "string \<Rightarrow> int option" where
  "serviceDay sd =
     (if to_number (take 4 sd) \<noteq> None \<and> parseInt (take 2 (drop 4 sd)) \<noteq> None
         \<and> to_number (take 2 (drop 6 sd)) \<noteq> None
      then Some 0 else None)"

definition resolveScheduleRelationship :: "string option \<Rightarrow> string option" where
  "resolveScheduleRelationship v =
     (if loose_eq_num v 0 then Some ''gtfs:Regular''
      else if loose_eq_num v 1 then Some ''gtfs:NotAvailable''
      else None)"

subsection \<open>One iteration of the walk\<close>

record walk_state =
  update_index :: nat
  departureDelay :: "int option"
  arrivalDelay :: "int option"

text \<open>Lines 86 to 108: the observation under the cursor is applied when its stop is stop j.\<close>

definition apply_update :: "row \<Rightarrow> StopTimeUpdate \<Rightarrow> walk_state \<Rightarrow> walk_state" where
  "apply_update st update s =
     (if strict_eq (field_of st ''stop_id'') (stop_id update) then
        (let s1 = (case (departure update, arrival update) of
                     (Some d, Some a) \<Rightarrow> s\<lparr>departureDelay := delay d, arrivalDelay := delay a\<rparr>
                   | _ \<Rightarrow> s);
             s2 = (case (departure update, arrival update) of
                     (Some d, None) \<Rightarrow> s1\<lparr>departureDelay := delay d, arrivalDelay := Some 0\<rparr>
                   | _ \<Rightarrow> s1);
             s3 = (case (departure update, arrival update) of
                     (None, Some a) \<Rightarrow> s2\<lparr>departureDelay := Some 0, arrivalDelay := delay a\<rparr>
                   | _ \<Rightarrow> s2)
         in s3\<lparr>update_index := update_index s + 1\<rparr>)
      else s)"

text \<open>
  Lines 119 to 123: when stop j + 1 is the stop of the observation now under the cursor,
  its arrival delay is read; \<open>update['arrival']['delay']\<close> throws when the observation
  has no arrival.
\<close>

definition lookahead :: "row \<Rightarrow> StopTimeUpdate list \<Rightarrow> walk_state \<Rightarrow> error + walk_state" where
  "lookahead st_next stop_time_updates s =
     (if update_index s < length stop_time_updates then
        (let update = stop_time_updates ! update_index s in
         if loose_eq (field_of st_next ''stop_id'') (stop_id update) then
           (case arrival update of
              None \<Rightarrow> Inl TypeError
            | Some a \<Rightarrow> Inr (s\<lparr>arrivalDelay := delay a\<rparr>))
         else Inr s)
      else Inr s)"

text \<open>
  \<open>seconds + delay\<close> (lines 138 and 146), then the conversion the \<open>Date\<close> constructor
  applies. The seconds part is a string, so \<open>+\<close> appends the text of the delay
  (\<open>null\<close> for an unset delay); with no seconds part the sum is \<open>NaN\<close>.
\<close>

definition seconds_plus_delay :: "string option \<Rightarrow> int option \<Rightarrow> int option" where
  "seconds_plus_delay secs d =
     (case secs of
        None \<Rightarrow> None
      | Some s \<Rightarrow> to_number (s @ (case d of None \<Rightarrow> ''null'' | Some n \<Rightarrow> number_to_string n)))"

text \<open>
  \<open>new Date(year, month, day, hours, minutes, seconds, 0)\<close>, where year, month and day
  are those of the trip's start instant: the first argument is that day's midnight.
\<close>

definition js_date :: "int option \<Rightarrow> string option \<Rightarrow> string option \<Rightarrow> int option \<Rightarrow> int option" where
  "js_date midnight hours minutes seconds =
     (case (midnight, hours, minutes, seconds) of
        (Some d, Some h, Some m, Some s) \<Rightarrow>
          (case (to_number h, to_number m) of
             (Some hn, Some mn) \<Rightarrow> Some (d + 3600 * hn + 60 * mn + s)
           | _ \<Rightarrow> None)
      | _ \<Rightarrow> None)"

definition day_of :: "int option \<Rightarrow> int option" where
  "day_of tripStartTime = map_option (\<lambda>t. (t div 86400) * 86400) tripStartTime"

text \<open>Lines 126 to 185: the connection of the hop from \<open>st\<close> to \<open>st_next\<close>.\<close>

definition build_connection ::
  "resolver \<Rightarrow> row \<Rightarrow> string option \<Rightarrow> string \<Rightarrow> int option \<Rightarrow> row \<Rightarrow> row \<Rightarrow> walk_state
     \<Rightarrow> error + Connection" where
  "build_connection R trip_row tid type tripStartTime st st_next s =
     (case field_of st ''departure_time'' of
        None \<Rightarrow> Inl TypeError
      | Some dep \<Rightarrow>
     (case field_of st_next ''departure_time'' of
        None \<Rightarrow> Inl TypeError
      | Some arr \<Rightarrow>
     (let dp = split_on CHR '':'' dep;
          departureTime = js_date (day_of tripStartTime) (nth_opt dp 0) (nth_opt dp 1)
                            (seconds_plus_delay (nth_opt dp 2) (departureDelay s));
          ap = split_on CHR '':'' arr;
          arrivalTime = js_date (day_of tripStartTime) (nth_opt ap 0) (nth_opt ap 1)
                          (seconds_plus_delay (nth_opt ap 2) (arrivalDelay s));
          raw = \<lparr>rc_departureStop = field_of st ''stop_id'', rc_departureTime = departureTime,
                 rc_arrivalStop = field_of st_next ''stop_id'', rc_arrivalTime = arrivalTime\<rparr>
      in case R tid tripStartTime raw of
           None \<Rightarrow> Inl TemplateError
         | Some u \<Rightarrow>
        (case (departureTime, arrivalTime) of
           (Some dt, Some at) \<Rightarrow>
             Inr \<lparr>lc_id = connectionURI u, lc_type = type,
                  lc_departureStop = departureStopURI u, lc_arrivalStop = arrivalStopURI u,
                  lc_departureTime = dt, lc_arrivalTime = at,
                  lc_departureDelay = departureDelay s, lc_arrivalDelay = arrivalDelay s,
                  lc_direction = field_of trip_row ''trip_headsign'',
                  lc_trip = tripURI u, lc_route = routeURI u,
                  lc_pickupType = resolveScheduleRelationship (field_of st ''pickup_type''),
                  lc_dropOffType = resolveScheduleRelationship (field_of st_next ''drop_off_type'')\<rparr>
         | _ \<Rightarrow> Inl RangeError))))"

text \<open>
  The body of the loop after the test for an exhausted cursor: the state it leaves (which
  an exception does not undo) and the connection or the exception caught at line 189.
\<close>

definition hop ::
  "resolver \<Rightarrow> row \<Rightarrow> string option \<Rightarrow> string \<Rightarrow> int option \<Rightarrow> StopTimeUpdate list
     \<Rightarrow> row \<Rightarrow> row \<Rightarrow> walk_state \<Rightarrow> walk_state \<times> (error + Connection)" where
  "hop R trip_row tid type tripStartTime stop_time_updates st st_next s =
     (let s1 = apply_update st (stop_time_updates ! update_index s) s in
      case lookahead st_next stop_time_updates s1 of
        Inl e \<Rightarrow> (s1, Inl e)
      | Inr s2 \<Rightarrow> (s2, build_connection R trip_row tid type tripStartTime st st_next s2))"

subsection \<open>The walk over a trip and the run over the feed\<close>

text \<open>
  The loop \<open>for (j = 0; j < stop_times.length - 1; j++)\<close> reads \<open>stop_times[j]\<close> and
  \<open>stop_times[j + 1]\<close>: the recursion is over the stops from position j on. It returns
  the events in order and the state the loop ends in.
\<close>

fun walk ::
  "resolver \<Rightarrow> row \<Rightarrow> string option \<Rightarrow> string \<Rightarrow> int option \<Rightarrow> StopTimeUpdate list
     \<Rightarrow> row list \<Rightarrow> walk_state \<Rightarrow> event list \<times> walk_state" where
  "walk R trip_row tid type tripStartTime stop_time_updates (st # st_next # rest) s =
     (if length stop_time_updates \<le> update_index s then ([], s)
      else
        (let (s', r) = hop R trip_row tid type tripStartTime stop_time_updates st st_next s;
             (evs, s_end) = walk R trip_row tid type tripStartTime stop_time_updates
                              (st_next # rest) s'
         in ((case r of Inl e \<Rightarrow> ConsoleError (HopError e tid) | Inr c \<Rightarrow> Push c) # evs, s_end)))"
| "walk R trip_row tid type tripStartTime stop_time_updates [] s = ([], s)"
| "walk R trip_row tid type tripStartTime stop_time_updates [st] s = ([], s)"

definition initial_state :: walk_state where
  "initial_state = \<lparr>update_index = 0, departureDelay = Some 0, arrivalDelay = Some 0\<rparr>"

text \<open>
  The callback of line 35 for one entity. \<open>Inl\<close> is an exception outside the loop's
  \<open>try\<close>, which rejects the callback's promise: \<open>substr\<close> or \<open>split\<close> of an unset
  \<open>start_date\<close> or \<open>start_time\<close>, or \<open>length\<close> of a stop-time list that is missing.
  The indexes are read with the synchronous \<open>get\<close> of the in-memory maps.
\<close>

definition process_entity :: "indexes \<Rightarrow> resolver \<Rightarrow> FeedEntity \<Rightarrow> error + event list" where
  "process_entity ix R entity =
     (case trip_update entity of
        None \<Rightarrow> Inr []
      | Some tu \<Rightarrow>
     (case start_date (trip tu) of
        None \<Rightarrow> Inl TypeError
      | Some sd \<Rightarrow>
     (case start_time (trip tu) of
        None \<Rightarrow> Inl TypeError
      | Some stime \<Rightarrow>
     (let tid = trip_id (trip tu);
          tripStartTime = addDuration (serviceDay sd) (parseGTFSDuration stime)
      in case trips ix tid of
           None \<Rightarrow> Inr [ConsoleError (TripNotFound tid)]
         | Some trip_row \<Rightarrow>
        (case stop_times ix tid of
           None \<Rightarrow> Inl TypeError
         | Some sts \<Rightarrow>
             Inr (fst (walk R trip_row tid (getConnectionType entity tu) tripStartTime
                         (stop_time_update tu) sts initial_state)))))))"

text \<open>
  \<open>parse\<close>: the callbacks run one after the other; then \<open>Promise.all\<close> reports the first
  rejection, if any, and the stream ends. A feed that cannot be read or decoded is logged
  and gives an empty stream.
\<close>

definition first_rejection :: "(error + event list) list \<Rightarrow> event list" where
  "first_rejection rs =
     (case List.find isl rs of Some (Inl e) \<Rightarrow> [ConsoleError (Rejected e)] | _ \<Rightarrow> [])"

definition parse :: "indexes \<Rightarrow> resolver \<Rightarrow> error + FeedEntity list \<Rightarrow> event list" where
  "parse ix R feed =
     (case feed of
        Inl e \<Rightarrow> [ConsoleError (Rejected e)]
      | Inr entities \<Rightarrow>
          (let rs = map (process_entity ix R) entities
           in concat (map (\<lambda>r. case r of Inl e \<Rightarrow> [] | Inr evs \<Rightarrow> evs) rs) @ first_rejection rs))"

definition pushed :: "event list \<Rightarrow> Connection list" where
  "pushed evs = concat (map (\<lambda>ev. case ev of Push c \<Rightarrow> [c] | ConsoleError l \<Rightarrow> []) evs)"

section \<open>The Static Schedule Indexer: \<open>GtfsIndex\<close>\<close>

subsection \<open>The working directory\<close>

text \<open>
  A text file is the list of its lines, without the line feeds. The working directory
  \<open>auxPath\<close> is \<open>None\<close> when it does not exist, and otherwise maps a file name to the
  file; \<open>rt_indexes\<close> says whether the directory \<open>.rt_indexes\<close> of the
  \<open>LevelStore\<close> backend exists.
\<close>

type_synonym files = "string \<Rightarrow> string list option"

record disk =
  auxDir :: "files option"
  rt_indexes :: bool

definition cleanUp :: "disk \<Rightarrow> disk" where
  "cleanUp d = d\<lparr>auxDir := None\<rparr>"

subsection \<open>Reading the files\<close>

text \<open>A truthy field: a string that is not empty.\<close>

definition truthy :: "string option \<Rightarrow> bool" where
  "truthy v = (case v of None \<Rightarrow> False | Some s \<Rightarrow> s \<noteq> [])"

text \<open>\<open>replace(/[\n\r"]/g, "")\<close>.\<close>

definition strip_quotes :: "string \<Rightarrow> string" where
  "strip_quotes s = filter (\<lambda>c. c \<notin> set [CHR 0x0A, CHR 0x0D, CHR 0x22]) s"

text \<open>
  \<open>getGtfsHeaders\<close>: \<open>head -1\<close> of the file, which fails when the file is missing, then
  the names between the commas, trimmed.
\<close>

definition getGtfsHeaders :: "files \<Rightarrow> string \<Rightarrow> error + string list" where
  "getGtfsHeaders fs fileName =
     (case fs fileName of
        None \<Rightarrow> Inl ExecError
      | Some ls \<Rightarrow> Inr (map trim (split_on CHR '','' (strip_quotes (case ls of [] \<Rightarrow> [] | l # _ \<Rightarrow> l)))))"

text \<open>
  The \<open>fast-csv\<close> parser with \<open>headers: true\<close>, on files without quoted fields: the
  first line names the columns, a carriage return ends a line with the line feed, a row
  with fewer fields than columns has the empty string in the columns it lacks, and a row
  with more fields than columns is the parser's error \<open>column header mismatch\<close>. The
  \<open>error\<close> listener of the source rethrows that error inside the emitter: the run ends
  with it as an uncaught exception, and the promise of the build does not settle. The
  model returns it as \<open>Inl\<close>, like a rejection, and does not tell the two apart.
\<close>

definition chomp :: "string \<Rightarrow> string" where
  "chomp l = (if l \<noteq> [] \<and> last l = CHR 0x0D then butlast l else l)"

definition make_row :: "string list \<Rightarrow> string list \<Rightarrow> row" where
  "make_row headers d =
     fold (\<lambda>(h, v) obj. AList.update h v obj)
       (zip headers (d @ replicate (length headers - length d) [])) []"

fun parse_rows :: "string list \<Rightarrow> string list \<Rightarrow> error + row list" where
  "parse_rows headers [] = Inr []"
| "parse_rows headers (l # ls) =
     (let d = split_on CHR '','' (chomp l) in
      if length headers < length d then Inl ParseError
      else (case parse_rows headers ls of Inl e \<Rightarrow> Inl e | Inr rs \<Rightarrow> Inr (make_row headers d # rs)))"

definition csv_parse :: "string list \<Rightarrow> error + row list" where
  "csv_parse ls = (case ls of [] \<Rightarrow> Inr [] | h # rest \<Rightarrow> parse_rows (split_on CHR '','' (chomp h)) rest)"

definition ends_with :: "string \<Rightarrow> string \<Rightarrow> bool" where
  "ends_with suffix s = (length suffix \<le> length s \<and> drop (length s - length suffix) s = suffix)"

text \<open>
  \<open>createIndex\<close>. The body of the loop, for one row: the row is stored under its key when
  the key is truthy, and for \<open>trips.txt\<close> the trip joins the trips of its route.
\<close>

definition index_row ::
  "string \<Rightarrow> string \<Rightarrow> row \<Rightarrow> row js_map \<times> string option list js_map option
     \<Rightarrow> row js_map \<times> string option list js_map option" where
  "index_row path key data acc =
     (case acc of (m, tpr) \<Rightarrow>
      if truthy (field_of data key) then
        (m(field_of data key \<mapsto> data),
         (case tpr of
            None \<Rightarrow> None
          | Some t \<Rightarrow>
              if ends_with ''trips.txt'' path then
                (case t (field_of data ''route_id'') of
                   None \<Rightarrow> Some (t(field_of data ''route_id'' \<mapsto> [field_of data ''trip_id'']))
                 | Some ts \<Rightarrow> Some (t(field_of data ''route_id'' \<mapsto> ts @ [field_of data ''trip_id''])))
              else Some t))
      else (m, tpr))"

definition createIndex ::
  "files \<Rightarrow> string \<Rightarrow> string \<Rightarrow> row js_map \<times> string option list js_map option
     \<Rightarrow> error + row js_map \<times> string option list js_map option" where
  "createIndex fs path key acc =
     (case fs path of
        None \<Rightarrow> Inr acc
      | Some ls \<Rightarrow>
          (case csv_parse ls of
             Inl e \<Rightarrow> Inl e
           | Inr rows \<Rightarrow> Inr (fold (index_row path key) rows acc)))"

subsection \<open>The full build of the stop times\<close>

text \<open>\<open>headers.indexOf(name) + 1\<close>: 0 when the name is not a header.\<close>

fun indexOf1 :: "string list \<Rightarrow> string \<Rightarrow> nat" where
  "indexOf1 [] x = 0"
| "indexOf1 (h # hs) x =
     (if h = x then 1 else (case indexOf1 hs x of 0 \<Rightarrow> 0 | Suc n \<Rightarrow> Suc (Suc n)))"

text \<open>
  The command \<open>sort -t , -k Td,T -k Sn,S\<close> of \<open>sortStopTimes\<close>, in the C locale: the
  lines are ordered by field T in dictionary order (blanks, letters and digits only),
  then by the leading integer of field S (0 when there is none), then byte by byte.
\<close>

definition nth_field :: "nat \<Rightarrow> string \<Rightarrow> string" where
  "nth_field k l = (case nth_opt (split_on CHR '','' l) (k - 1) of None \<Rightarrow> [] | Some f \<Rightarrow> f)"

definition is_alnum_blank :: "char \<Rightarrow> bool" where
  "is_alnum_blank c =
     (c = CHR 0x20 \<or> c = CHR 0x09 \<or> is_digit c
      \<or> (CHR ''a'' \<le> c \<and> c \<le> CHR ''z'') \<or> (CHR ''A'' \<le> c \<and> c \<le> CHR ''Z''))"

definition dict_key :: "string \<Rightarrow> string" where
  "dict_key f = filter is_alnum_blank f"

definition num_key :: "string \<Rightarrow> int" where
  "num_key f =
     (let t = dropWhile (\<lambda>c. c = CHR 0x20 \<or> c = CHR 0x09) f;
          neg = (t \<noteq> [] \<and> hd t = CHR ''-'');
          ds = takeWhile is_digit (if neg then tl t else t)
      in (if neg then - 1 else 1) * int (digits_to_nat ds))"

definition sort_le :: "nat \<Rightarrow> nat \<Rightarrow> string \<Rightarrow> string \<Rightarrow> bool" where
  "sort_le ti ss a b =
     (let ka = dict_key (nth_field ti a); kb = dict_key (nth_field ti b);
          na = num_key (nth_field ss a); nb = num_key (nth_field ss b)
      in ka < kb \<or> (ka = kb \<and> (na < nb \<or> (na = nb \<and> a \<le> b))))"

fun insert_by :: "('a \<Rightarrow> 'a \<Rightarrow> bool) \<Rightarrow> 'a \<Rightarrow> 'a list \<Rightarrow> 'a list" where
  "insert_by le x [] = [x]"
| "insert_by le x (y # ys) = (if le x y then x # y # ys else y # insert_by le x ys)"

text \<open>A stable sort: an element stays before the later elements it is not greater than.\<close>

definition sort_by :: "('a \<Rightarrow> 'a \<Rightarrow> bool) \<Rightarrow> 'a list \<Rightarrow> 'a list" where
  "sort_by le xs = foldr (insert_by le) xs []"

text \<open>
  \<open>sortStopTimes\<close> rewrites \<open>stop_times.txt\<close>: the header line, then the sorted lines.
  The command ends with \<open>mv\<close>, so it succeeds even when \<open>sort\<close> refuses a field number
  of zero; the file then keeps its header line only.
\<close>

definition sortStopTimes :: "nat \<Rightarrow> nat \<Rightarrow> files \<Rightarrow> files" where
  "sortStopTimes ti_index ss_index fs =
     (case fs ''stop_times.txt'' of
        None \<Rightarrow> fs(''stop_times.txt'' \<mapsto> [])
      | Some ls \<Rightarrow>
          fs(''stop_times.txt'' \<mapsto>
               take 1 ls @ (if ti_index = 0 \<or> ss_index = 0 then []
                            else sort_by (sort_le ti_index ss_index) (drop 1 ls))))"

text \<open>
  \<open>processStopTimes\<close>: the scan keeps the trip id and the rows of the trip being read,
  and stores a trip when the next row has another trip id.
\<close>

record scan_state =
  currentTripId :: "string option"
  currentTrip :: "row list"
  st_map :: "row list js_map"
  st_fst :: "row js_map option"

definition scan_row :: "row \<Rightarrow> scan_state \<Rightarrow> scan_state" where
  "scan_row data s =
     (if truthy (field_of data ''trip_id'') then
        (let s1 = (case st_fst s of
                     None \<Rightarrow> s
                   | Some f \<Rightarrow>
                       if field_of data ''stop_sequence'' = Some ''1''
                       then s\<lparr>st_fst := Some (f(field_of data ''trip_id'' \<mapsto> data))\<rparr> else s);
             s2 = (if currentTripId s1 = None \<or> field_of data ''trip_id'' = currentTripId s1
                   then s1\<lparr>currentTrip := currentTrip s1 @ [data]\<rparr>
                   else s1\<lparr>st_map := (st_map s1)(currentTripId s1 \<mapsto> currentTrip s1),
                          currentTrip := [data]\<rparr>)
         in s2\<lparr>currentTripId := field_of data ''trip_id''\<rparr>)
      else s)"

definition processStopTimes ::
  "files \<Rightarrow> string \<Rightarrow> row list js_map \<Rightarrow> row js_map option
     \<Rightarrow> error + row list js_map \<times> row js_map option" where
  "processStopTimes fs path m fst_index =
     (case fs path of
        None \<Rightarrow> Inl NoSuchFile
      | Some ls \<Rightarrow>
          (case csv_parse ls of
             Inl e \<Rightarrow> Inl e
           | Inr rows \<Rightarrow>
               (let s = fold scan_row rows
                          \<lparr>currentTripId = None, currentTrip = [], st_map = m, st_fst = fst_index\<rparr>
                in Inr ((st_map s)(currentTripId s \<mapsto> currentTrip s), st_fst s))))"

text \<open>
  \<open>processCalendarDates\<close> opens the file without testing that it exists. A service's
  exceptions are an object keyed by the date.
\<close>

definition calendar_row ::
  "row \<Rightarrow> (string \<times> string option) list js_map \<Rightarrow> (string \<times> string option) list js_map" where
  "calendar_row data m =
     (let s = (case m (field_of data ''service_id'') of None \<Rightarrow> [] | Some s \<Rightarrow> s);
          k = (case field_of data ''date'' of None \<Rightarrow> ''undefined'' | Some dt \<Rightarrow> dt)
      in m(field_of data ''service_id'' \<mapsto> AList.update k (field_of data ''exception_type'') s))"

definition processCalendarDates ::
  "files \<Rightarrow> string \<Rightarrow> (string \<times> string option) list js_map
     \<Rightarrow> error + (string \<times> string option) list js_map" where
  "processCalendarDates fs path m =
     (case fs path of
        None \<Rightarrow> Inl NoSuchFile
      | Some ls \<Rightarrow>
          (case csv_parse ls of
             Inl e \<Rightarrow> Inl e
           | Inr rows \<Rightarrow> Inr (fold calendar_row rows m)))"

subsection \<open>The scoped extraction\<close>

text \<open>
  \<open>grep tripId fileName\<close> prints the lines that hold the trip id anywhere; a trip id is
  taken to have no character that is special in a regular expression. It writes to
  \<open>stderr\<close>, and the promise is rejected, when the file is missing.
\<close>

fun contains :: "string \<Rightarrow> string \<Rightarrow> bool" where
  "contains pat [] = (pat = [])"
| "contains pat (x # xs) = (take (length pat) (x # xs) = pat \<or> contains pat xs)"

text \<open>The object \<open>obj[headers[j]] = d[j]\<close> of a printed line.\<close>

definition grep_row :: "string list \<Rightarrow> string list \<Rightarrow> row" where
  "grep_row headers d =
     fold (\<lambda>(h, v) obj. case v of None \<Rightarrow> AList.delete h obj | Some x \<Rightarrow> AList.update h x obj)
       (zip headers (map Some d @ replicate (length headers - length d) None)) []"

definition grepGtfsFile :: "files \<Rightarrow> string \<Rightarrow> string \<Rightarrow> string list \<Rightarrow> error + row list" where
  "grepGtfsFile fs tripId fileName headers =
     (case fs fileName of
        None \<Rightarrow> Inl GrepError
      | Some ls \<Rightarrow>
          Inr (map (\<lambda>l. grep_row headers (split_on CHR '','' (strip_quotes l)))
                 (filter (contains tripId) ls)))"

text \<open>
  The comparator \<open>parseInt(a.stop_sequence) - parseInt(b.stop_sequence)\<close> of
  \<open>grepStopTimes\<close>; a difference that is \<open>NaN\<close> counts as 0. \<open>Array.prototype.sort\<close>
  is stable.
\<close>

definition seq_le :: "row \<Rightarrow> row \<Rightarrow> bool" where
  "seq_le a b =
     (case (Option.bind (field_of a ''stop_sequence'') parseInt,
            Option.bind (field_of b ''stop_sequence'') parseInt) of
        (Some x, Some y) \<Rightarrow> x \<le> y
      | _ \<Rightarrow> True)"

fun grepStopTimes ::
  "files \<Rightarrow> string list \<Rightarrow> string list \<Rightarrow> row list js_map \<Rightarrow> error + row list js_map" where
  "grepStopTimes fs [] stopTimesHeaders stop_times_index = Inr stop_times_index"
| "grepStopTimes fs (t # ts) stopTimesHeaders stop_times_index =
     (case grepGtfsFile fs t ''stop_times.txt'' stopTimesHeaders of
        Inl e \<Rightarrow> Inl e
      | Inr stopTimes \<Rightarrow>
          grepStopTimes fs ts stopTimesHeaders (stop_times_index(Some t \<mapsto> sort_by seq_le stopTimes)))"

fun grepTrips ::
  "files \<Rightarrow> string list \<Rightarrow> string list \<Rightarrow> row js_map \<Rightarrow> error + row js_map" where
  "grepTrips fs [] tripsHeaders trips_index = Inr trips_index"
| "grepTrips fs (t # ts) tripsHeaders trips_index =
     (case grepGtfsFile fs t ''trips.txt'' tripsHeaders of
        Inl e \<Rightarrow> Inl e
      | Inr rs \<Rightarrow> grepTrips fs ts tripsHeaders (trips_index(Some t := nth_opt rs 0)))"

subsection \<open>\<open>createIndexes\<close> and \<open>getIndexes\<close>\<close>

text \<open>
  The builds of the files run concurrently and \<open>Promise.all\<close> fails with the first that
  fails; the model runs them in the order of the program, so that the build fails when
  any of them does. The trips and the stop times come from one of three branches.
\<close>

record options =
  opt_store :: string
  opt_trips :: "string list option"
  opt_deduce :: bool

record trip_tables =
  tt_trips :: "row js_map"
  tt_tripsByRoute :: "string option list js_map option"
  tt_stop_times :: "row list js_map"
  tt_firstStops :: "row js_map option"

definition full_build ::
  "string list \<Rightarrow> string option list js_map option \<Rightarrow> row js_map option \<Rightarrow> disk \<Rightarrow> files
     \<Rightarrow> (error + trip_tables) \<times> disk" where
  "full_build stopTimesHeaders byRoute firsts d fs =
     (let fs' = sortStopTimes (indexOf1 stopTimesHeaders ''trip_id'')
                  (indexOf1 stopTimesHeaders ''stop_sequence'') fs;
          d' = d\<lparr>auxDir := Some fs'\<rparr>
      in case createIndex fs ''trips.txt'' ''trip_id'' (Map.empty, byRoute) of
           Inl e \<Rightarrow> (Inl e, d')
         | Inr (trips_index, tpr) \<Rightarrow>
             (case processStopTimes fs' ''stop_times.txt'' Map.empty firsts of
                Inl e \<Rightarrow> (Inl e, d')
              | Inr (stop_times_index, fst_index) \<Rightarrow>
                  (Inr \<lparr>tt_trips = trips_index, tt_tripsByRoute = tpr,
                        tt_stop_times = stop_times_index, tt_firstStops = fst_index\<rparr>, d')))"

definition scoped_build ::
  "string list \<Rightarrow> string list \<Rightarrow> string option list js_map option \<Rightarrow> row js_map option
     \<Rightarrow> disk \<Rightarrow> files \<Rightarrow> (error + trip_tables) \<times> disk" where
  "scoped_build uTrips stopTimesHeaders byRoute firsts d fs =
     (case getGtfsHeaders fs ''trips.txt'' of
        Inl e \<Rightarrow> (Inl e, d)
      | Inr tripsHeaders \<Rightarrow>
          (case grepTrips fs uTrips tripsHeaders Map.empty of
             Inl e \<Rightarrow> (Inl e, d)
           | Inr trips_index \<Rightarrow>
               (case grepStopTimes fs uTrips stopTimesHeaders Map.empty of
                  Inl e \<Rightarrow> (Inl e, d)
                | Inr stop_times_index \<Rightarrow>
                    (Inr \<lparr>tt_trips = trips_index, tt_tripsByRoute = byRoute,
                          tt_stop_times = stop_times_index, tt_firstStops = firsts\<rparr>, d))))"

definition build_trips ::
  "string \<Rightarrow> string list option \<Rightarrow> string list \<Rightarrow> string option list js_map option
     \<Rightarrow> row js_map option \<Rightarrow> disk \<Rightarrow> files \<Rightarrow> (error + trip_tables) \<times> disk" where
  "build_trips store uTrips stopTimesHeaders byRoute firsts d fs =
     (if store = ''MemStore'' then
        (case uTrips of
           Some ts \<Rightarrow> scoped_build ts stopTimesHeaders byRoute firsts d fs
         | None \<Rightarrow> full_build stopTimesHeaders byRoute firsts d fs)
      else if store = ''LevelStore'' then
        full_build stopTimesHeaders byRoute firsts (d\<lparr>rt_indexes := True\<rparr>) fs
      else (Inl UnrecognizedStore, d))"

definition createIndexes ::
  "string \<Rightarrow> string list option \<Rightarrow> bool \<Rightarrow> disk \<Rightarrow> (error + indexes) \<times> disk" where
  "createIndexes store uTrips deduce d =
     (case auxDir d of
        None \<Rightarrow> (Inl ExecError, d)
      | Some fs \<Rightarrow>
     (case getGtfsHeaders fs ''stop_times.txt'' of
        Inl e \<Rightarrow> (Inl e, d)
      | Inr stopTimesHeaders \<Rightarrow>
     (case build_trips store uTrips stopTimesHeaders (if deduce then Some Map.empty else None)
             (if deduce then Some Map.empty else None) d fs of
        (Inl e, d1) \<Rightarrow> (Inl e, d1)
      | (Inr tt, d1) \<Rightarrow>
     (case createIndex fs ''stops.txt'' ''stop_id'' (Map.empty, None) of
        Inl e \<Rightarrow> (Inl e, d1)
      | Inr (stops_index, _) \<Rightarrow>
     (case createIndex fs ''routes.txt'' ''route_id'' (Map.empty, None) of
        Inl e \<Rightarrow> (Inl e, d1)
      | Inr (routes_index, _) \<Rightarrow>
     (case (if deduce then createIndex fs ''calendar.txt'' ''service_id'' (Map.empty, None)
            else Inr (Map.empty, None)) of
        Inl e \<Rightarrow> (Inl e, d1)
      | Inr (calendar_index, _) \<Rightarrow>
     (case (if deduce then processCalendarDates fs ''calendar_dates.txt'' Map.empty
            else Inr Map.empty) of
        Inl e \<Rightarrow> (Inl e, d1)
      | Inr calendarDates_index \<Rightarrow>
          (Inr \<lparr>routes = routes_index, trips = tt_trips tt, stops = stops_index,
                stop_times = tt_stop_times tt, tripsByRoute = tt_tripsByRoute tt,
                firstStops = tt_firstStops tt,
                calendar = (if deduce then Some calendar_index else None),
                calendarDates = (if deduce then Some calendarDates_index else None)\<rparr>,
           cleanUp d1))))))))"

text \<open>
  \<open>getIndexes\<close>. The static feed at \<open>path\<close> is not there, cannot be fetched, is not
  an archive, or unpacks into files. The promise of \<open>createIndexes\<close> is passed to
  \<open>resolve\<close> and not awaited, so the \<open>catch\<close> of line 45 does not see its rejection.
\<close>

datatype source = NoPath | Unreachable | BadArchive | Archive files

definition getIndexes :: "source \<Rightarrow> options \<Rightarrow> disk \<Rightarrow> (error + indexes) \<times> disk" where
  "getIndexes src opts d0 =
     (let d1 = cleanUp d0 in
      case src of
        NoPath \<Rightarrow> (Inl InvalidPath, d1)
      | Unreachable \<Rightarrow> (Inl RequestError, cleanUp d1)
      | BadArchive \<Rightarrow> (Inl UnzipError, cleanUp (cleanUp (d1\<lparr>auxDir := Some Map.empty\<rparr>)))
      | Archive fs \<Rightarrow>
          createIndexes (opt_store opts) (opt_trips opts) (opt_deduce opts)
            (d1\<lparr>auxDir := Some fs\<rparr>))"

section \<open>Example schedules and feeds\<close>

text \<open>
  A resolver that fills the stop identifiers from the stop ids, and the static data of
  two trips: \<open>T1\<close> calls at A (08:00:00), B (08:10:00) and C (08:20:00); \<open>T3\<close> leaves A
  at 08:00:30 and reaches B at 08:10:00, which it leaves at 08:12:00.
\<close>

definition example_resolver :: resolver where
  "example_resolver tid tripStartTime raw =
     Some \<lparr>departureStopURI = ''http://example.org/stops/'' @ (case rc_departureStop raw of None \<Rightarrow> [] | Some x \<Rightarrow> x),
           arrivalStopURI = ''http://example.org/stops/'' @ (case rc_arrivalStop raw of None \<Rightarrow> [] | Some x \<Rightarrow> x),
           routeURI = ''http://example.org/routes/R1'',
           tripURI = ''http://example.org/trips/'' @ (case tid of None \<Rightarrow> [] | Some x \<Rightarrow> x),
           connectionURI = ''http://example.org/connections/'' @ (case rc_departureStop raw of None \<Rightarrow> [] | Some x \<Rightarrow> x)\<rparr>"

definition stop_time_row :: "string \<Rightarrow> string \<Rightarrow> string \<Rightarrow> string \<Rightarrow> string \<Rightarrow> row" where
  "stop_time_row tid sid arr dep seq =
     [(''trip_id'', tid), (''arrival_time'', arr), (''departure_time'', dep),
      (''stop_id'', sid), (''stop_sequence'', seq), (''pickup_type'', []), (''drop_off_type'', ''1'')]"

definition T1_stop_times :: "row list" where
  "T1_stop_times =
     [stop_time_row ''T1'' ''A'' ''08:00:00'' ''08:00:00'' ''1'',
      stop_time_row ''T1'' ''B'' ''08:10:00'' ''08:10:00'' ''2'',
      stop_time_row ''T1'' ''C'' ''08:20:00'' ''08:20:00'' ''3'']"

definition T3_stop_times :: "row list" where
  "T3_stop_times =
     [stop_time_row ''T3'' ''A'' ''08:00:30'' ''08:00:30'' ''1'',
      stop_time_row ''T3'' ''B'' ''08:10:00'' ''08:12:00'' ''2'']"

definition example_indexes :: indexes where
  "example_indexes =
     \<lparr>routes = [Some ''R1'' \<mapsto> [(''route_id'', ''R1'')]],
      trips = [Some ''T1'' \<mapsto> [(''route_id'', ''R1''), (''trip_id'', ''T1''), (''trip_headsign'', ''Downtown'')],
               Some ''T3'' \<mapsto> [(''route_id'', ''R1''), (''trip_id'', ''T3''), (''trip_headsign'', ''Downtown'')]],
      stops = Map.empty,
      stop_times = [Some ''T1'' \<mapsto> T1_stop_times, Some ''T3'' \<mapsto> T3_stop_times],
      tripsByRoute = None, firstStops = None, calendar = None, calendarDates = None\<rparr>"

text \<open>An update of a trip on 1 January 2020 at 08:00:00, and an observation at a stop.\<close>

definition update_of :: "string \<Rightarrow> StopTimeUpdate list \<Rightarrow> FeedEntity" where
  "update_of tid observations =
     \<lparr>is_deleted = False,
      trip_update = Some \<lparr>trip = \<lparr>trip_id = Some tid, start_date = Some ''20200101'',
                                 start_time = Some ''08:00:00'', schedule_relationship = Some 0\<rparr>,
                          stop_time_update = observations\<rparr>\<rparr>"

definition observation :: "string \<Rightarrow> int option \<Rightarrow> int option \<Rightarrow> StopTimeUpdate" where
  "observation sid dep arr =
     \<lparr>stop_id = Some sid,
      departure = map_option (\<lambda>n. \<lparr>delay = Some n\<rparr>) dep,
      arrival = map_option (\<lambda>n. \<lparr>delay = Some n\<rparr>) arr\<rparr>"


text \<open>
  An archive with the stop times of the trips \<open>T1\<close> and \<open>T10\<close> and no \<open>stops.txt\<close>,
  the same archive without \<open>stop_times.txt\<close>, and with a row of three fields under the
  two columns of \<open>stops.txt\<close>.
\<close>

definition example_files :: files where
  "example_files =
     [''stop_times.txt'' \<mapsto>
        [''trip_id,arrival_time,departure_time,stop_id,stop_sequence'',
         ''T1,08:00:00,08:00:00,A,1'',
         ''T10,09:00:00,09:00:00,X,1'',
         ''T1,08:10:00,08:10:00,B,2'',
         ''T10,09:10:00,09:10:00,Y,2''],
      ''trips.txt'' \<mapsto>
        [''route_id,service_id,trip_id,trip_headsign'',
         ''R1,S1,T1,Downtown'',
         ''R1,S1,T10,Uptown''],
      ''routes.txt'' \<mapsto> [''route_id,route_short_name'', ''R1,1'']]"

definition files_without_stop_times :: files where
  "files_without_stop_times = example_files(''stop_times.txt'' := None)"

definition files_with_malformed_stops :: files where
  "files_with_malformed_stops =
     example_files(''stops.txt'' \<mapsto> [''stop_id,stop_name'', ''A,Alpha,extra''])"

definition empty_disk :: disk where
  "empty_disk = \<lparr>auxDir = None, rt_indexes = False\<rparr>"

definition full_options :: "string \<Rightarrow> options" where
  "full_options store = \<lparr>opt_store = store, opt_trips = None, opt_deduce = False\<rparr>"

definition scoped_options :: "string list \<Rightarrow> options" where
  "scoped_options ts = \<lparr>opt_store = ''MemStore'', opt_trips = Some ts, opt_deduce = False\<rparr>"

text \<open>The stop times a build stores for a trip, when it succeeds.\<close>

definition stored_stop_times :: "(error + indexes) \<times> disk \<Rightarrow> string \<Rightarrow> row list option" where
  "stored_stop_times res tid =
     (case fst res of Inl e \<Rightarrow> None | Inr ix \<Rightarrow> stop_times ix (Some tid))"

text \<open>A row of the example \<open>stop_times.txt\<close>, and the error of a build that fails.\<close>

definition example_row :: "string \<Rightarrow> string \<Rightarrow> string \<Rightarrow> string \<Rightarrow> string \<Rightarrow> row" where
  "example_row tid arr dep sid seq =
     [(''trip_id'', tid), (''arrival_time'', arr), (''departure_time'', dep),
      (''stop_id'', sid), (''stop_sequence'', seq)]"

definition error_of :: "(error + indexes) \<times> disk \<Rightarrow> error option" where
  "error_of res = (case fst res of Inl e \<Rightarrow> Some e | Inr ix \<Rightarrow> None)"

section \<open>Properties\<close>

subsection \<open>Helper lemmas\<close>

lemma pushed_simps [simp]:
  "pushed [] = []" "pushed (Push c # evs) = c # pushed evs" "pushed (ConsoleError l # evs) = pushed evs"
  "pushed (xs @ ys) = pushed xs @ pushed ys"
  by (simp_all add: pushed_def)



lemma build_connection_fields:
  assumes "build_connection R tr tid ty t0 st st_next s = Inr c"
  shows "lc_departureDelay c = departureDelay s" "lc_arrivalDelay c = arrivalDelay s"
        "lc_pickupType c = resolveScheduleRelationship (field_of st ''pickup_type'')"
        "lc_dropOffType c = resolveScheduleRelationship (field_of st_next ''drop_off_type'')"
  using assms by (auto simp: build_connection_def Let_def split: option.splits prod.splits)

lemma all_digits_trim: "all_digits ds \<Longrightarrow> trim ds = ds"
proof -
  assume a: "all_digits ds"
  have nw: "\<And>c. is_digit c \<Longrightarrow> \<not> is_ws c" by (auto simp: is_digit_def is_ws_def)
  from a obtain c cs where ds: "ds = c # cs" by (cases ds) (auto simp: all_digits_def)
  from a ds have "is_digit c" by (simp add: all_digits_def)
  then have d1: "dropWhile is_ws ds = ds" using ds nw by simp
  from a have "ds \<noteq> []" "is_digit (last ds)" by (auto simp: all_digits_def list_all_iff)
  then have "\<not> is_ws (hd (rev ds))" using nw by (simp add: hd_rev)
  then have "dropWhile is_ws (rev ds) = rev ds" using \<open>ds \<noteq> []\<close> by (cases "rev ds") auto
  then show ?thesis using d1 by (simp add: trim_def)
qed

lemma to_number_digits: "all_digits ds \<Longrightarrow> to_number ds = Some (int (digits_to_nat ds))"
  using all_digits_trim[of ds] by (auto simp: to_number_def Let_def all_digits_def)

lemma hop_cursor:
  "update_index (fst (hop R tr tid ty t0 ups st st_next s)) =
     (if strict_eq (field_of st ''stop_id'') (stop_id (ups ! update_index s))
      then update_index s + 1 else update_index s)"
  by (auto simp: hop_def apply_update_def lookahead_def Let_def split: sum.splits option.splits if_splits prod.splits)

lemma hop_no_match:
  assumes "update_index s < length ups" "stop_id (ups ! update_index s) = Some x"
    "field_of st ''stop_id'' \<noteq> Some x" "field_of st_next ''stop_id'' \<noteq> Some x"
  shows "hop R tr tid ty t0 ups st st_next s = (s, build_connection R tr tid ty t0 st st_next s)"
  using assms
  by (auto simp: hop_def apply_update_def lookahead_def Let_def strict_eq_def loose_eq_def split: sum.splits option.splits if_splits prod.splits)



subsection \<open>The walk and the exhausted cursor\<close>




subsection \<open>Scoped extraction and full build\<close>

text \<open>
  Claim C2 says that the full build and the scoped extraction store the same stop-time
  list for a trip id that both index. \<open>grep\<close> prints every line that holds the trip
  id anywhere, so the scoped extraction of \<open>T1\<close> also pulls the rows of the trip \<open>T10\<close>
  and sorts them among the rows of \<open>T1\<close>; the full build stores the two rows of \<open>T1\<close>.
\<close>

theorem scoped_extraction_pulls_other_trips:
  "stored_stop_times (getIndexes (Archive example_files) (full_options ''MemStore'') empty_disk) ''T1''
     = Some [example_row ''T1'' ''08:00:00'' ''08:00:00'' ''A'' ''1'',
             example_row ''T1'' ''08:10:00'' ''08:10:00'' ''B'' ''2'']
   \<and> stored_stop_times (getIndexes (Archive example_files) (scoped_options [''T1'']) empty_disk) ''T1''
     = Some [example_row ''T1'' ''08:00:00'' ''08:00:00'' ''A'' ''1'',
             example_row ''T10'' ''09:00:00'' ''09:00:00'' ''X'' ''1'',
             example_row ''T1'' ''08:10:00'' ''08:10:00'' ''B'' ''2'',
             example_row ''T10'' ''09:10:00'' ''09:10:00'' ''Y'' ''2'']"
  by code_simp

subsection \<open>Departure and arrival instants\<close>

text \<open>
  Claim C3 says that the departure instant of a hop is the scheduled departure time of
  the departure stop plus the running departure delay, and that the arrival instant is the
  scheduled arrival time of the arrival stop plus the running arrival delay. The code
  appends the text of the delay to the seconds field (line 138: \<open>"30" + 60\<close> is
  \<open>"3060"\<close>) and reads the arrival from \<open>departure_time\<close> of the arrival stop
  (line 141). For the trip \<open>T3\<close>, which leaves A at 08:00:30 and is due at B at 08:10:00,
  leaving at 08:12:00, an observation of 60 seconds of departure delay at A gives a
  departure at 08:00 plus 3060 seconds, where the claim has 08:01:30, and an arrival at
  08:12:00, where the claim has 08:10:00.
\<close>

theorem instants_append_the_delay:
  "map (\<lambda>c. (lc_departureTime c, lc_arrivalTime c))
     (pushed (parse example_indexes example_resolver
        (Inr [update_of ''T3'' [observation ''A'' (Some 60) None]])))
   = [(8 * 3600 + 3060, 8 * 3600 + 12 * 60)]"
  by code_simp

subsection \<open>The lookahead\<close>

text \<open>
  Claim C4 says that the lookahead pre-applies the arrival delay of the observation at
  stop j + 1 and never prevents the hop from being emitted. For the trip \<open>T1\<close> and one
  observation at B with a departure delay of 120 seconds and no arrival, line 121 reads
  \<open>update['arrival']['delay']\<close> of an arrival that is \<open>null\<close>: the hop from A to B is
  logged as an error and not emitted, and the hop from B to C follows, leaving at 08:12:00
  and arriving at 08:20:00.
\<close>

theorem lookahead_skips_the_hop:
  "map (\<lambda>ev. case ev of
               Push c \<Rightarrow> Inr (lc_departureStop c, lc_departureDelay c, lc_arrivalDelay c,
                              lc_departureTime c, lc_arrivalTime c)
             | ConsoleError l \<Rightarrow> Inl l)
     (parse example_indexes example_resolver
        (Inr [update_of ''T1'' [observation ''B'' (Some 120) None]]))
   = [Inl (HopError TypeError (Some ''T1'')),
      Inr (''http://example.org/stops/B'', Some 120, Some 0, 8 * 3600 + 12 * 60, 8 * 3600 + 20 * 60)]"
  by code_simp

subsection \<open>Applying an observation\<close>




subsection \<open>Pickup and drop-off types\<close>

text \<open>
  Against claim C6 as stated: an empty \<open>pickup_type\<close> field is \<open>== 0\<close> in JavaScript,
  so it resolves to \<open>gtfs:Regular\<close> and not to an absent value, as the hop of \<open>T3\<close>
  shows.
\<close>

theorem empty_code_is_regular:
  "resolveScheduleRelationship (Some []) = Some ''gtfs:Regular''
   \<and> map (\<lambda>r. field_of r ''pickup_type'') T3_stop_times = [Some [], Some []]
   \<and> map lc_pickupType (pushed (parse example_indexes example_resolver
        (Inr [update_of ''T3'' [observation ''A'' (Some 60) None]]))) = [Some ''gtfs:Regular'']"
  by code_simp

text \<open>
  Claim C6, as the code has it: for every emitted hop the pickup type is resolved from
  the pickup code of the departure stop time and the drop-off type from the drop-off code
  of the arrival stop time. A field that is missing (\<open>undefined\<close>) resolves to an absent
  value, an empty field resolves to \<open>gtfs:Regular\<close>, and a field of decimal digits resolves
  to \<open>gtfs:Regular\<close> when its value is 0, to \<open>gtfs:NotAvailable\<close> when it is 1 and to
  an absent value otherwise.
\<close>

theorem pickup_and_drop_off_types:
  assumes "update_index s < length ups"
    and "hop R tr tid ty t0 ups st st_next s = (s', Inr c)"
  shows "lc_pickupType c = resolveScheduleRelationship (field_of st ''pickup_type'')
     \<and> lc_dropOffType c = resolveScheduleRelationship (field_of st_next ''drop_off_type'')
     \<and> resolveScheduleRelationship None = None
     \<and> resolveScheduleRelationship (Some []) = Some ''gtfs:Regular''
     \<and> (\<forall>ds. all_digits ds \<longrightarrow>
          resolveScheduleRelationship (Some ds) =
            (if digits_to_nat ds = 0 then Some ''gtfs:Regular''
             else if digits_to_nat ds = 1 then Some ''gtfs:NotAvailable'' else None))"
proof -
  from assms(2) obtain s2 where b: "build_connection R tr tid ty t0 st st_next s2 = Inr c"
    by (auto simp: hop_def Let_def split: sum.splits)
  have n: "resolveScheduleRelationship None = None"
    by (simp add: resolveScheduleRelationship_def loose_eq_num_def)
  have e: "resolveScheduleRelationship (Some []) = Some ''gtfs:Regular''"
    by (simp add: resolveScheduleRelationship_def loose_eq_num_def to_number_def trim_def)
  have d: "resolveScheduleRelationship (Some ds) =
            (if digits_to_nat ds = 0 then Some ''gtfs:Regular''
             else if digits_to_nat ds = 1 then Some ''gtfs:NotAvailable'' else None)"
    if "all_digits ds" for ds
    using that by (simp add: resolveScheduleRelationship_def loose_eq_num_def to_number_digits)
  show ?thesis using build_connection_fields(3,4)[OF b] n e d by blast
qed

text \<open>
  The theorem at the hop of \<open>T3\<close>, whose stops have an empty pickup code and the
  drop-off code 1, and at the code 2.
\<close>

theorem pickup_and_drop_off_types_witness:
  "(\<exists>s' c. hop example_resolver [] (Some ''T3'') ''Connection'' (Some 28800)
        [observation ''A'' (Some 60) None] (T3_stop_times ! 0) (T3_stop_times ! 1) initial_state = (s', Inr c)
      \<and> lc_pickupType c = Some ''gtfs:Regular'' \<and> lc_dropOffType c = Some ''gtfs:NotAvailable'')
   \<and> resolveScheduleRelationship (Some ''2'') = None"
proof -
  let ?h = "hop example_resolver [] (Some ''T3'') ''Connection'' (Some 28800)
        [observation ''A'' (Some 60) None] (T3_stop_times ! 0) (T3_stop_times ! 1) initial_state"
  have nl: "\<not> isl (snd ?h)" by code_simp
  obtain s' r where hr: "?h = (s', r)" by (cases ?h)
  with nl obtain c where "r = Inr c" by (cases r) auto
  with hr have h: "?h = (s', Inr c)" by simp
  have a: "all_digits ''2''" by code_simp
  have f: "resolveScheduleRelationship (field_of (T3_stop_times ! 0) ''pickup_type'') = Some ''gtfs:Regular''"
    "resolveScheduleRelationship (field_of (T3_stop_times ! 1) ''drop_off_type'') = Some ''gtfs:NotAvailable''"
    "digits_to_nat ''2'' = 2"
    by code_simp+
  have g: "update_index initial_state < length [observation ''A'' (Some 60) None]"
    by (simp add: initial_state_def)
  from pickup_and_drop_off_types[OF g h] a f h show ?thesis by auto
qed

subsection \<open>Missing files and malformed rows\<close>




subsection \<open>Cleaning up after a failed build\<close>

text \<open>
  Claim C8 says that when a step of the build fails, the working directory and the
  directory of the \<open>LevelStore\<close> backend are deleted before the error reaches the
  caller. The rejection of \<open>createIndexes\<close> does not pass through the \<open>catch\<close> of
  \<open>getIndexes\<close>, and \<open>cleanUp\<close> deletes the working directory only: a build that
  fails for a missing \<open>stop_times.txt\<close> leaves the working directory, and a
  \<open>LevelStore\<close> build that fails on a malformed row of \<open>stops.txt\<close> leaves the
  working directory and \<open>.rt_indexes\<close>.
\<close>

theorem failed_build_leaves_directories:
  "error_of (getIndexes (Archive files_without_stop_times) (full_options ''MemStore'') empty_disk) = Some ExecError
   \<and> auxDir (snd (getIndexes (Archive files_without_stop_times) (full_options ''MemStore'') empty_disk)) \<noteq> None
   \<and> error_of (getIndexes (Archive files_with_malformed_stops) (full_options ''LevelStore'') empty_disk) = Some ParseError
   \<and> auxDir (snd (getIndexes (Archive files_with_malformed_stops) (full_options ''LevelStore'') empty_disk)) \<noteq> None
   \<and> rt_indexes (snd (getIndexes (Archive files_with_malformed_stops) (full_options ''LevelStore'') empty_disk))"
  by code_simp

subsection \<open>Per-entity errors\<close>




subsection \<open>An observation at a stop the trip does not reach\<close>

text \<open>
  Claim C10: the cursor advances in an iteration exactly when the id of the current
  static stop is strictly equal to the stop id of the observation under the cursor. So
  when that observation names a stop id that no stop from the current position on has, the
  walk ends with the cursor and the running delays it started with (the observation is
  never applied, and no later observation is reached), and every hop emitted from there
  has the delays in effect before that observation.
\<close>

theorem cursor_stuck_on_unknown_stop:
  assumes "update_index s < length ups" and "stop_id (ups ! update_index s) = Some x"
    and "\<forall>st \<in> set sts. field_of st ''stop_id'' \<noteq> Some x"
  shows "snd (walk R tr tid ty t0 ups sts s) = s
     \<and> (\<forall>c \<in> set (pushed (fst (walk R tr tid ty t0 ups sts s))).
            lc_departureDelay c = departureDelay s \<and> lc_arrivalDelay c = arrivalDelay s)
     \<and> (\<forall>st st_next s0. update_index s0 < length ups \<longrightarrow>
            update_index (fst (hop R tr tid ty t0 ups st st_next s0)) =
              (if strict_eq (field_of st ''stop_id'') (stop_id (ups ! update_index s0))
               then update_index s0 + 1 else update_index s0))"
proof -
  have "snd (walk R tr tid ty t0 ups sts s) = s
     \<and> (\<forall>c \<in> set (pushed (fst (walk R tr tid ty t0 ups sts s))).
            lc_departureDelay c = departureDelay s \<and> lc_arrivalDelay c = arrivalDelay s)"
    using assms
  proof (induction R tr tid ty t0 ups sts s rule: walk.induct)
    case (1 R tr tid ty t0 ups st st_next rest s)
    have h: "hop R tr tid ty t0 ups st st_next s = (s, build_connection R tr tid ty t0 st st_next s)"
      using hop_no_match[of s ups x st st_next] 1(2-4) by auto
    have ih: "snd (walk R tr tid ty t0 ups (st_next # rest) s) = s \<and>
         (\<forall>c \<in> set (pushed (fst (walk R tr tid ty t0 ups (st_next # rest) s))).
            lc_departureDelay c = departureDelay s \<and> lc_arrivalDelay c = arrivalDelay s)"
      using 1(1)[OF _ h[symmetric] refl] 1(2-4) by simp
    show ?case using 1(2) h ih build_connection_fields(1,2)[of R tr tid ty t0 st st_next s]
      by (auto split: prod.splits sum.splits)
  qed simp_all
  then show ?thesis using hop_cursor by blast
qed

text \<open>
  The theorem at \<open>T1\<close> with a first observation at a stop Z that the trip does not
  call at: both hops are emitted with zero delays, and the observation at B is ignored.
\<close>

theorem cursor_stuck_on_unknown_stop_witness:
  "snd (walk example_resolver [] (Some ''T1'') ''Connection'' (Some 28800)
          [observation ''Z'' (Some 60) (Some 30), observation ''B'' (Some 120) (Some 90)]
          T1_stop_times initial_state) = initial_state
   \<and> list_all (\<lambda>c. lc_departureDelay c = Some 0 \<and> lc_arrivalDelay c = Some 0)
       (pushed (fst (walk example_resolver [] (Some ''T1'') ''Connection'' (Some 28800)
          [observation ''Z'' (Some 60) (Some 30), observation ''B'' (Some 120) (Some 90)]
          T1_stop_times initial_state)))
   \<and> length (pushed (fst (walk example_resolver [] (Some ''T1'') ''Connection'' (Some 28800)
          [observation ''Z'' (Some 60) (Some 30), observation ''B'' (Some 120) (Some 90)]
          T1_stop_times initial_state))) = 2"
proof -
  let ?ups = "[observation ''Z'' (Some 60) (Some 30), observation ''B'' (Some 120) (Some 90)]"
  have h1: "update_index initial_state < length ?ups" by (simp add: initial_state_def)
  have h2: "stop_id (?ups ! update_index initial_state) = Some ''Z''"
    by (simp add: initial_state_def observation_def)
  have h3: "\<forall>st \<in> set T1_stop_times. field_of st ''stop_id'' \<noteq> Some ''Z''"
    by (simp add: T1_stop_times_def stop_time_row_def field_of_def)
  have l: "length (pushed (fst (walk example_resolver [] (Some ''T1'') ''Connection'' (Some 28800)
          ?ups T1_stop_times initial_state))) = 2"
    by code_simp
  from cursor_stuck_on_unknown_stop[OF h1 h2 h3, of example_resolver "[]" "Some ''T1''" "''Connection''" "Some 28800"] l
  show ?thesis by (simp add: list_all_iff initial_state_def)
qed

end
